theory Spec2Isabelle
  imports Main "HOL-Library.AList"
begin

section \<open>Error model (errors.go)\<close>

text \<open>
  Go strings and byte slices are byte sequences; both are modelled as \<open>string\<close>
  (a list of 8-bit characters), so the conversion \<^verbatim>\<open>string(body)\<close> is the identity.
  Go's \<^verbatim>\<open>int\<close> status code is modelled as \<open>int\<close>: the code only compares it.
\<close>

record APIError =
  StatusCode :: int
  Message :: string
  Path :: string

text \<open>
  Values of Go's \<^verbatim>\<open>error\<close> interface, as far as the package builds and inspects them:
  a \<^verbatim>\<open>*APIError\<close>, a leaf error carrying only its text (\<^verbatim>\<open>errors.New\<close>, and
  \<^verbatim>\<open>fmt.Errorf\<close> without \<^verbatim>\<open>%w\<close>), and an error wrapping another one
  (\<^verbatim>\<open>fmt.Errorf("prefix: %w", err)\<close>). Errors produced by libraries (net/http,
  encoding/json, context) are values of the same type.
\<close>

datatype error =
    ErrAPI APIError
  | ErrText string
  | ErrWrap string error

function itoa_nat :: "nat \<Rightarrow> string" where
  "itoa_nat n =
     (if n < 10 then [char_of (48 + n)]
      else itoa_nat (n div 10) @ [char_of (48 + n mod 10)])"
  by pat_completeness auto
termination
  by (relation "measure id") auto

declare itoa_nat.simps [simp del]

definition itoa :: "int \<Rightarrow> string" where
  "itoa i = (if i < 0 then CHR ''-'' # itoa_nat (nat (- i)) else itoa_nat (nat i))"

fun Error :: "error \<Rightarrow> string" where
  "Error (ErrAPI e) =
     ''birdeye api error: '' @ Path e @ '' returned status '' @ itoa (StatusCode e)
       @ '': '' @ Message e"
| "Error (ErrText s) = s"
| "Error (ErrWrap prefix e) = prefix @ Error e"

definition IsNotFound :: "APIError \<Rightarrow> bool" where
  "IsNotFound e = (StatusCode e = 404)"

definition IsRateLimited :: "APIError \<Rightarrow> bool" where
  "IsRateLimited e = (StatusCode e = 429)"

definition IsServerError :: "APIError \<Rightarrow> bool" where
  "IsServerError e = (StatusCode e \<ge> 500)"

definition IsClientError :: "APIError \<Rightarrow> bool" where
  "IsClientError e = (StatusCode e \<ge> 400 \<and> StatusCode e < 500)"

text \<open>\<^verbatim>\<open>errors.As\<close> for the target type \<^verbatim>\<open>*APIError\<close>: walk the wrapper chain.\<close>

fun errors_As :: "error \<Rightarrow> APIError option" where
  "errors_As (ErrAPI e) = Some e"
| "errors_As (ErrText s) = None"
| "errors_As (ErrWrap prefix e) = errors_As e"

text \<open>
  \<^verbatim>\<open>IsAPIError\<close> returns \<^verbatim>\<open>(apiErr, true)\<close>, here \<open>Some apiErr\<close>, or
  \<^verbatim>\<open>(nil, false)\<close>, here \<open>None\<close>. The argument \<open>None\<close> is the nil error.
\<close>

definition IsAPIError :: "error option \<Rightarrow> APIError option" where
  "IsAPIError err = (case err of None \<Rightarrow> None | Some e \<Rightarrow> errors_As e)"


section \<open>Configuration and construction (client.go)\<close>

text \<open>\<^verbatim>\<open>time.Duration\<close> counts nanoseconds; the code only stores and copies it.\<close>

type_synonym Duration = int

definition Millisecond :: Duration where
  "Millisecond = 1000000"

definition Second :: Duration where
  "Second = 1000 * Millisecond"

definition DefaultBaseURL :: string where
  "DefaultBaseURL = ''https://public-api.birdeye.so''"

definition DefaultTimeout :: Duration where
  "DefaultTimeout = 10 * Second"

definition DefaultMaxRetries :: int where
  "DefaultMaxRetries = 3"

definition DefaultRetryWaitMin :: Duration where
  "DefaultRetryWaitMin = 500 * Millisecond"

definition DefaultRetryWaitMax :: Duration where
  "DefaultRetryWaitMax = 3 * Second"

definition chainSolana :: string where
  "chainSolana = ''solana''"

text \<open>
  A \<^verbatim>\<open>Logger\<close> is an interface value: the package's own \<^verbatim>\<open>noopLogger{}\<close> or an
  implementation supplied by the caller, identified here by a handle.
  A caller's \<^verbatim>\<open>*http.Client\<close> is a handle as well; \<open>None\<close> is the nil pointer.
\<close>

datatype Logger = noopLogger | callerLogger nat

datatype http_Client = callerClient nat

record config =
  baseURL :: string
  timeout :: Duration
  maxRetries :: int
  retryWaitMin :: Duration
  retryWaitMax :: Duration
  logger :: Logger
  httpClient :: "http_Client option"

text \<open>
  An \<^verbatim>\<open>Option\<close> is a closure \<^verbatim>\<open>func(*config)\<close>. The type \<^verbatim>\<open>config\<close> is not
  exported, so the closures are those the six constructors return; each is
  determined by its constructor and the arguments it captured. \<open>apply_Option\<close> is
  the call \<^verbatim>\<open>opt(cfg)\<close>.
\<close>

datatype Option =
    WithBaseURL string
  | WithTimeout Duration
  | WithMaxRetries int
  | WithRetryWait Duration Duration
  | WithLogger Logger
  | WithHTTPClient "http_Client option"

fun apply_Option :: "Option \<Rightarrow> config \<Rightarrow> config" where
  "apply_Option (WithBaseURL url) c = c\<lparr>baseURL := url\<rparr>"
| "apply_Option (WithTimeout d) c = c\<lparr>timeout := d\<rparr>"
| "apply_Option (WithMaxRetries n) c = c\<lparr>maxRetries := n\<rparr>"
| "apply_Option (WithRetryWait mn mx) c = c\<lparr>retryWaitMin := mn, retryWaitMax := mx\<rparr>"
| "apply_Option (WithLogger l) c = c\<lparr>logger := l\<rparr>"
| "apply_Option (WithHTTPClient client) c = c\<lparr>httpClient := client\<rparr>"

text \<open>The literal \<^verbatim>\<open>&config{...}\<close> of \<^verbatim>\<open>NewClient\<close>; \<^verbatim>\<open>httpClient\<close> is left nil.\<close>

definition default_config :: config where
  "default_config =
     \<lparr>baseURL = DefaultBaseURL, timeout = DefaultTimeout, maxRetries = DefaultMaxRetries,
      retryWaitMin = DefaultRetryWaitMin, retryWaitMax = DefaultRetryWaitMax,
      logger = noopLogger, httpClient = None\<rparr>"

text \<open>The loop \<^verbatim>\<open>for _, opt := range opts { opt(cfg) }\<close>.\<close>

fun apply_Options :: "Option list \<Rightarrow> config \<Rightarrow> config" where
  "apply_Options [] cfg = cfg"
| "apply_Options (opt # opts) cfg = apply_Options opts (apply_Option opt cfg)"

text \<open>
  The request context at the moment it is inspected: \<^verbatim>\<open>ctx.Err()\<close> is nil, or the
  cancellation or deadline error.
\<close>

record Context =
  Err :: "error option"

text \<open>
  A response body is a reader: \<^verbatim>\<open>io.ReadAll\<close> yields all its bytes or fails, and
  \<^verbatim>\<open>Close\<close> may fail.
\<close>

record Body =
  ReadAll :: "error + string"
  Close :: "error option"

record Response =
  Resp_StatusCode :: int
  Resp_Body :: Body

text \<open>
  The retry policy assigned to \<^verbatim>\<open>retryClient.CheckRetry\<close>. It returns the pair
  \<^verbatim>\<open>(bool, error)\<close>. With a nil response and a nil error the read of
  \<^verbatim>\<open>resp.StatusCode\<close> dereferences nil and panics.
\<close>

datatype panic = NilPointerDereference

definition CheckRetry ::
  "Context \<Rightarrow> Response option \<Rightarrow> error option \<Rightarrow> panic + (bool \<times> error option)" where
  "CheckRetry ctx resp err =
     (if Err ctx \<noteq> None then Inr (False, Err ctx)
      else if err \<noteq> None then Inr (True, err)
      else case resp of
             None \<Rightarrow> Inl NilPointerDereference
           | Some r \<Rightarrow>
               if Resp_StatusCode r = 429 then Inr (True, None)
               else if Resp_StatusCode r \<ge> 500 then Inr (True, None)
               else Inr (False, None))"

text \<open>
  The client of go-retryablehttp as \<^verbatim>\<open>NewClient\<close> configures it: the fields it
  assigns. \<open>rc_Logger\<close> is \<open>None\<close> for the nil logger.
\<close>

record retryablehttp_Client =
  RetryMax :: int
  RetryWaitMin :: Duration
  RetryWaitMax :: Duration
  HTTPClient_Timeout :: Duration
  rc_Logger :: "unit option"
  rc_CheckRetry :: "Context \<Rightarrow> Response option \<Rightarrow> error option \<Rightarrow> panic + (bool \<times> error option)"

text \<open>
  What \<^verbatim>\<open>Client.httpClient\<close> points to: the caller's client, or
  \<^verbatim>\<open>retryClient.StandardClient()\<close>.
\<close>

datatype transport =
    Custom http_Client
  | StandardClient retryablehttp_Client

record Client =
  cl_apiKey :: string
  cl_baseURL :: string
  cl_httpClient :: transport
  cl_logger :: Logger

definition NewClient :: "string \<Rightarrow> Option list \<Rightarrow> error + Client" where
  "NewClient apiKey opts =
     (if apiKey = [] then Inl (ErrText ''api key is required'')
      else
        let cfg = apply_Options opts default_config;
            hc = (case httpClient cfg of
                    Some client \<Rightarrow> Custom client
                  | None \<Rightarrow>
                      StandardClient
                        \<lparr>RetryMax = maxRetries cfg,
                         RetryWaitMin = retryWaitMin cfg,
                         RetryWaitMax = retryWaitMax cfg,
                         HTTPClient_Timeout = timeout cfg,
                         rc_Logger = None,
                         rc_CheckRetry = CheckRetry\<rparr>)
        in Inr \<lparr>cl_apiKey = apiKey, cl_baseURL = baseURL cfg, cl_httpClient = hc,
                cl_logger = logger cfg\<rparr>)"


section \<open>Transport (client.go)\<close>

text \<open>
  \<^verbatim>\<open>url.Values\<close> is a map from a key to its values, kept here as an association
  list with distinct keys; \<^verbatim>\<open>len(params)\<close> is its length.
\<close>

type_synonym Values = "(string \<times> string list) list"

definition Values_Set :: "string \<Rightarrow> string \<Rightarrow> Values \<Rightarrow> Values" where
  "Values_Set key v vs = AList.update key [v] vs"

record Request =
  Method :: string
  URL :: string
  Req_Context :: Context
  Header :: "(string \<times> string) list"

text \<open>
  \<^verbatim>\<open>req.Header.Set\<close>; the header names are kept as the code writes them (net/http
  stores them in canonical capitalisation, which no property here depends on).
\<close>

definition Header_Set :: "string \<Rightarrow> string \<Rightarrow> Request \<Rightarrow> Request" where
  "Header_Set key v req = req\<lparr>Header := AList.update key v (Header req)\<rparr>"

text \<open>
  What the package does to the outside, in the order it happens: a request handed to
  \<^verbatim>\<open>c.httpClient.Do\<close>, and the calls of the four methods of \<^verbatim>\<open>c.logger\<close> with
  their message (the key/value arguments of a log call never reach the control flow
  or a result and are left out).
\<close>

datatype event =
    Sent Request
  | LogDebug string
  | LogInfo string
  | LogWarn string
  | LogError string

record 'w state =
  world :: 'w
  trace :: "event list"

definition emit :: "event \<Rightarrow> 'w state \<Rightarrow> 'w state" where
  "emit ev st = st\<lparr>trace := trace st @ [ev]\<rparr>"

text \<open>The requests issued so far, oldest first.\<close>

fun requests :: "event list \<Rightarrow> Request list" where
  "requests [] = []"
| "requests (Sent req # evs) = req # requests evs"
| "requests (ev # evs) = requests evs"

text \<open>
  The library functions \<^verbatim>\<open>doGet\<close> calls, taken as parameters:
  \<^verbatim>\<open>url.Values.Encode\<close>; the failure of \<^verbatim>\<open>http.NewRequestWithContext\<close> on a URL
  it cannot parse; and \<^verbatim>\<open>c.httpClient.Do\<close>, which depends on the client it is
  called on and on the state \<open>'w\<close> of the network and the server, and changes that state.
\<close>

record 'w externals =
  Encode :: "Values \<Rightarrow> string"
  NewRequest_error :: "string \<Rightarrow> error option"
  Do :: "transport \<Rightarrow> Request \<Rightarrow> 'w \<Rightarrow> (error + Response) \<times> 'w"

definition NewRequestWithContext ::
  "'w externals \<Rightarrow> Context \<Rightarrow> string \<Rightarrow> string \<Rightarrow> error + Request" where
  "NewRequestWithContext X ctx method url =
     (case NewRequest_error X url of
        Some err \<Rightarrow> Inl err
      | None \<Rightarrow> Inr \<lparr>Method = method, URL = url, Req_Context = ctx, Header = []\<rparr>)"

text \<open>The deferred function of \<^verbatim>\<open>doGet\<close>: it runs on every return after \<^verbatim>\<open>Do\<close> succeeded.\<close>

definition deferred_Close :: "Response \<Rightarrow> 'a \<times> 'w state \<Rightarrow> 'a \<times> 'w state" where
  "deferred_Close resp r =
     (case Close (Resp_Body resp) of
        Some closeErr \<Rightarrow> (fst r, emit (LogWarn ''failed to close response body'') (snd r))
      | None \<Rightarrow> r)"

definition doGet ::
  "'w externals \<Rightarrow> Client \<Rightarrow> Context \<Rightarrow> string \<Rightarrow> Values \<Rightarrow> 'w state
     \<Rightarrow> (error + string) \<times> 'w state" where
  "doGet X c ctx path params st =
     (let reqURL = cl_baseURL c @ path;
          reqURL = (if length params > 0 then reqURL @ ''?'' @ Encode X params else reqURL)
      in case NewRequestWithContext X ctx ''GET'' reqURL of
           Inl err \<Rightarrow> (Inl (ErrWrap ''create request: '' err), st)
         | Inr req0 \<Rightarrow>
             let req = Header_Set ''x-chain'' chainSolana
                         (Header_Set ''Accept'' ''application/json''
                           (Header_Set ''X-API-KEY'' (cl_apiKey c) req0));
                 st1 = emit (LogDebug ''birdeye api request'') st;
                 outcome = Do X (cl_httpClient c) req (world st1);
                 st2 = (emit (Sent req) st1)\<lparr>world := snd outcome\<rparr>
             in (case fst outcome of
                  Inl err \<Rightarrow>
                    (Inl (ErrWrap ''execute request: '' err),
                     emit (LogError ''birdeye api request failed'') st2)
                | Inr resp \<Rightarrow>
                    deferred_Close resp
                      (case ReadAll (Resp_Body resp) of
                         Inl err \<Rightarrow> (Inl (ErrWrap ''read response body: '' err), st2)
                       | Inr body \<Rightarrow>
                           if Resp_StatusCode resp \<noteq> 200
                           then (Inl (ErrAPI \<lparr>StatusCode = Resp_StatusCode resp,
                                              Message = body, Path = path\<rparr>),
                                 emit (LogError ''birdeye api error response'') st2)
                           else (Inr body, st2))))"

text \<open>
  The envelope \<^verbatim>\<open>parseResponse\<close> decodes into, and \<^verbatim>\<open>json.Unmarshal\<close> for the
  payload type \<open>'a\<close> as a parameter: it fails, or fills the three fields.
\<close>

datatype 'a envelope = Envelope (resp_Success: bool) (resp_Message: string) (resp_Data: 'a)

definition parseResponse :: "(string \<Rightarrow> error + 'a envelope) \<Rightarrow> string \<Rightarrow> error + 'a" where
  "parseResponse json_Unmarshal body =
     (case json_Unmarshal body of
        Inl err \<Rightarrow> Inl (ErrWrap ''unmarshal response: '' err)
      | Inr resp \<Rightarrow>
          if \<not> resp_Success resp then
            (if resp_Message resp \<noteq> []
             then Inl (ErrText (''birdeye api error: '' @ resp_Message resp))
             else Inl (ErrText ''birdeye api returned success=false''))
          else Inr (resp_Data resp))"


section \<open>Endpoints (price.go, token_overview.go, token_security.go)\<close>

text \<open>
  The payload structs are decode targets only and stay a type parameter.
\<close>

definition GetPrice ::
  "'w externals \<Rightarrow> (string \<Rightarrow> error + 'a envelope) \<Rightarrow> Client \<Rightarrow> Context \<Rightarrow> string
     \<Rightarrow> 'w state \<Rightarrow> (error + 'a) \<times> 'w state" where
  "GetPrice X json_Unmarshal c ctx address st =
     (if address = [] then
        (Inl (ErrAPI \<lparr>StatusCode = 400, Message = ''address is required'',
                      Path = ''/defi/price''\<rparr>), st)
      else
        let params = Values_Set ''address'' address []
        in case doGet X c ctx ''/defi/price'' params st of
             (Inl err, st1) \<Rightarrow> (Inl err, st1)
           | (Inr body, st1) \<Rightarrow>
               (case parseResponse json_Unmarshal body of
                  Inl err \<Rightarrow> (Inl err, st1)
                | Inr price \<Rightarrow> (Inr price, emit (LogDebug ''fetched token price'') st1)))"

definition GetTokenOverview ::
  "'w externals \<Rightarrow> (string \<Rightarrow> error + 'a envelope) \<Rightarrow> Client \<Rightarrow> Context \<Rightarrow> string
     \<Rightarrow> 'w state \<Rightarrow> (error + 'a) \<times> 'w state" where
  "GetTokenOverview X json_Unmarshal c ctx address st =
     (if address = [] then
        (Inl (ErrAPI \<lparr>StatusCode = 400, Message = ''address is required'',
                      Path = ''/defi/token_overview''\<rparr>), st)
      else
        let params = Values_Set ''address'' address []
        in case doGet X c ctx ''/defi/token_overview'' params st of
             (Inl err, st1) \<Rightarrow> (Inl err, st1)
           | (Inr body, st1) \<Rightarrow>
               (case parseResponse json_Unmarshal body of
                  Inl err \<Rightarrow> (Inl err, st1)
                | Inr overview \<Rightarrow>
                    (Inr overview, emit (LogDebug ''fetched token overview'') st1)))"

definition GetTokenSecurity ::
  "'w externals \<Rightarrow> (string \<Rightarrow> error + 'a envelope) \<Rightarrow> Client \<Rightarrow> Context \<Rightarrow> string
     \<Rightarrow> 'w state \<Rightarrow> (error + 'a) \<times> 'w state" where
  "GetTokenSecurity X json_Unmarshal c ctx address st =
     (if address = [] then
        (Inl (ErrAPI \<lparr>StatusCode = 400, Message = ''address is required'',
                      Path = ''/defi/token_security''\<rparr>), st)
      else
        let params = Values_Set ''address'' address []
        in case doGet X c ctx ''/defi/token_security'' params st of
             (Inl err, st1) \<Rightarrow> (Inl err, st1)
           | (Inr body, st1) \<Rightarrow>
               (case parseResponse json_Unmarshal body of
                  Inl err \<Rightarrow> (Inl err, st1)
                | Inr security \<Rightarrow>
                    (Inr security, emit (LogDebug ''fetched token security'') st1)))"

text \<open>\<^verbatim>\<open>strings.Join\<close>.\<close>

fun Join :: "string list \<Rightarrow> string \<Rightarrow> string" where
  "Join [] sep = []"
| "Join [x] sep = x"
| "Join (x # y # ys) sep = x @ sep @ Join (y # ys) sep"

definition batchSize :: nat where
  "batchSize = 100"

text \<open>
  The batch loop of \<^verbatim>\<open>GetMultiplePrices\<close>, from index \<open>i\<close> with the map \<open>result\<close>
  built so far. The slice \<^verbatim>\<open>addresses[i:end]\<close> is always in range. The result map
  \<^verbatim>\<open>map[string]decimal.Decimal\<close> is a map \<open>string \<rightharpoonup> 'd\<close>, and the inner loop that
  stores every entry of the batch into \<^verbatim>\<open>result\<close> is \<open>result ++ batchPrices\<close>.
\<close>

function GetMultiplePrices_loop ::
  "'w externals \<Rightarrow> (string \<Rightarrow> error + (string \<rightharpoonup> 'd) envelope) \<Rightarrow> Client \<Rightarrow> Context
     \<Rightarrow> string list \<Rightarrow> nat \<Rightarrow> (string \<rightharpoonup> 'd) \<Rightarrow> 'w state
     \<Rightarrow> (error + (string \<rightharpoonup> 'd)) \<times> 'w state" where
  "GetMultiplePrices_loop X json_Unmarshal c ctx addresses i result st =
     (if i < length addresses then
        let end = (if i + batchSize > length addresses then length addresses
                   else i + batchSize);
            batch = take (end - i) (drop i addresses);
            listAddress = Join batch '','';
            params = Values_Set ''list_address'' listAddress []
        in case doGet X c ctx ''/defi/multi_price'' params st of
             (Inl err, st1) \<Rightarrow> (Inl err, st1)
           | (Inr body, st1) \<Rightarrow>
               (case parseResponse json_Unmarshal body of
                  Inl err \<Rightarrow> (Inl err, st1)
                | Inr batchPrices \<Rightarrow>
                    GetMultiplePrices_loop X json_Unmarshal c ctx addresses (i + batchSize)
                      (result ++ batchPrices) st1)
      else (Inr result, st))"
  by pat_completeness auto
termination
  by (relation "measure (\<lambda>(X, um, c, ctx, addresses, i, result, st). length addresses - i)")
     (auto simp: batchSize_def)

declare GetMultiplePrices_loop.simps [simp del]

definition GetMultiplePrices ::
  "'w externals \<Rightarrow> (string \<Rightarrow> error + (string \<rightharpoonup> 'd) envelope) \<Rightarrow> Client \<Rightarrow> Context
     \<Rightarrow> string list \<Rightarrow> 'w state \<Rightarrow> (error + (string \<rightharpoonup> 'd)) \<times> 'w state" where
  "GetMultiplePrices X json_Unmarshal c ctx addresses st =
     (if length addresses = 0 then (Inr Map.empty, st)
      else if list_ex (\<lambda>addr. addr = []) addresses then
        (Inl (ErrAPI \<lparr>StatusCode = 400, Message = ''address list contains empty string'',
                      Path = ''/defi/multi_price''\<rparr>), st)
      else
        case GetMultiplePrices_loop X json_Unmarshal c ctx addresses 0 Map.empty st of
          (Inl err, st1) \<Rightarrow> (Inl err, st1)
        | (Inr result, st1) \<Rightarrow>
            (Inr result, emit (LogDebug ''fetched multiple token prices'') st1))"


section \<open>Notions used to state the properties\<close>

text \<open>
  The URL and the request that \<^verbatim>\<open>doGet\<close> builds before it calls \<^verbatim>\<open>Do\<close>
  (the first part of its body, written out once more so that a statement can name the
  request that reaches the network).
\<close>

definition doGet_URL :: "'w externals \<Rightarrow> Client \<Rightarrow> string \<Rightarrow> Values \<Rightarrow> string" where
  "doGet_URL X c path params =
     (if length params > 0 then cl_baseURL c @ path @ ''?'' @ Encode X params
      else cl_baseURL c @ path)"

definition doGet_Request :: "'w externals \<Rightarrow> Client \<Rightarrow> Context \<Rightarrow> string \<Rightarrow> Values \<Rightarrow> Request" where
  "doGet_Request X c ctx path params =
     \<lparr>Method = ''GET'', URL = doGet_URL X c path params, Req_Context = ctx,
      Header = [(''X-API-KEY'', cl_apiKey c), (''Accept'', ''application/json''),
                (''x-chain'', ''solana'')]\<rparr>"

text \<open>
  The batch coordinator as the specification words it: the key list cut into chunks of
  at most \<open>batchSize\<close> consecutive keys; one chunk request, which is a \<^verbatim>\<open>doGet\<close>
  on the multi-price path with the chunk joined by commas in the one query parameter,
  followed by the decoding of the envelope; and the chunk requests issued one after the
  other, stopping at the first that fails. The theorems below relate
  \<open>GetMultiplePrices\<close>, which is translated from the code, to these.
\<close>

definition batches :: "string list \<Rightarrow> string list list" where
  "batches addresses =
     map (\<lambda>k. take batchSize (drop (k * batchSize) addresses))
       [0..<(length addresses + (batchSize - 1)) div batchSize]"

definition fetch_batch ::
  "'w externals \<Rightarrow> (string \<Rightarrow> error + (string \<rightharpoonup> 'd) envelope) \<Rightarrow> Client \<Rightarrow> Context
     \<Rightarrow> string list \<Rightarrow> 'w state \<Rightarrow> (error + (string \<rightharpoonup> 'd)) \<times> 'w state" where
  "fetch_batch X json_Unmarshal c ctx batch st =
     (case doGet X c ctx ''/defi/multi_price''
             (Values_Set ''list_address'' (Join batch '','') []) st of
        (Inl err, st1) \<Rightarrow> (Inl err, st1)
      | (Inr body, st1) \<Rightarrow> (parseResponse json_Unmarshal body, st1))"

fun fetch_batches ::
  "'w externals \<Rightarrow> (string \<Rightarrow> error + (string \<rightharpoonup> 'd) envelope) \<Rightarrow> Client \<Rightarrow> Context
     \<Rightarrow> string list list \<Rightarrow> 'w state \<Rightarrow> (error + (string \<rightharpoonup> 'd) list) \<times> 'w state" where
  "fetch_batches X json_Unmarshal c ctx [] st = (Inr [], st)"
| "fetch_batches X json_Unmarshal c ctx (batch # rest) st =
     (case fetch_batch X json_Unmarshal c ctx batch st of
        (Inl err, st1) \<Rightarrow> (Inl err, st1)
      | (Inr m, st1) \<Rightarrow>
          (case fetch_batches X json_Unmarshal c ctx rest st1 of
             (Inl err, st2) \<Rightarrow> (Inl err, st2)
           | (Inr ms, st2) \<Rightarrow> (Inr (m # ms), st2)))"

definition batch_Request :: "'w externals \<Rightarrow> Client \<Rightarrow> Context \<Rightarrow> string list \<Rightarrow> Request" where
  "batch_Request X c ctx batch =
     doGet_Request X c ctx ''/defi/multi_price'' [(''list_address'', [Join batch '',''])]"

text \<open>The result of the loop from the outcome of the chunk requests and the map built so far.\<close>

definition finish :: "('d \<rightharpoonup> 'e) \<Rightarrow> (error + ('d \<rightharpoonup> 'e) list) \<times> 's \<Rightarrow> (error + ('d \<rightharpoonup> 'e)) \<times> 's" where
  "finish result r = (case r of (Inl err, st1) \<Rightarrow> (Inl err, st1)
                      | (Inr ms, st1) \<Rightarrow> (Inr (foldl (++) result ms), st1))"


section \<open>A sample environment\<close>

text \<open>
  Concrete parameters on which the theorems are instantiated. The server is a script:
  the list of answers still to be given, one per request; once the script is used up
  the connection is refused. \<open>plain_Encode\<close> writes the parameters without escaping.
\<close>

definition plain_Encode :: "Values \<Rightarrow> string" where
  "plain_Encode vs = Join (map (\<lambda>kv. fst kv @ ''='' @ Join (snd kv) '','') vs) ''&''"

definition scripted_server :: "(error + Response) list externals" where
  "scripted_server =
     \<lparr>Encode = plain_Encode,
      NewRequest_error = (\<lambda>url. None),
      Do = (\<lambda>client req script.
              case script of
                [] \<Rightarrow> (Inl (ErrText ''connection refused''), [])
              | answer # rest \<Rightarrow> (answer, rest))\<rparr>"

definition reply :: "int \<Rightarrow> string \<Rightarrow> error + Response" where
  "reply status body =
     Inr \<lparr>Resp_StatusCode = status, Resp_Body = \<lparr>ReadAll = Inr body, Close = None\<rparr>\<rparr>"


definition sample_Client :: Client where
  "sample_Client =
     \<lparr>cl_apiKey = ''test-key'', cl_baseURL = ''http://localhost'',
      cl_httpClient = Custom (callerClient 0), cl_logger = noopLogger\<rparr>"


definition background :: Context where
  "background = \<lparr>Err = None\<rparr>"

definition start :: "'w \<Rightarrow> 'w state" where
  "start w = \<lparr>world = w, trace = []\<rparr>"

definition sample_Unmarshal :: "string \<Rightarrow> error + (string \<rightharpoonup> int) envelope" where
  "sample_Unmarshal body =
     (if body = ''ok'' then Inr (Envelope True [] [''token'' \<mapsto> 1])
      else if body = ''no'' then Inr (Envelope False ''bad request'' Map.empty)
      else if body = ''{}'' then Inr (Envelope False [] Map.empty)
      else Inl (ErrText ''invalid character''))"


section \<open>Auxiliary lemmas\<close>

subsection \<open>The transport\<close>

lemma requests_append [simp]: "requests (xs @ ys) = requests xs @ requests ys"
  by (induction xs rule: requests.induct) simp_all

lemma requests_emit_Log [simp]:
  "requests (trace (emit (LogDebug s) st)) = requests (trace st)"
  by (simp add: emit_def)

lemma doGet_unparsable:
  assumes "NewRequest_error X (doGet_URL X c path params) = Some err"
  shows "doGet X c ctx path params st = (Inl (ErrWrap ''create request: '' err), st)"
  using assms by (cases params) (simp_all add: doGet_def doGet_URL_def NewRequestWithContext_def Let_def)

lemma doGet_built:
  assumes "NewRequest_error X (doGet_URL X c path params) = None"
  shows "doGet X c ctx path params st =
     (let req = doGet_Request X c ctx path params;
          st1 = emit (LogDebug ''birdeye api request'') st;
          outcome = Do X (cl_httpClient c) req (world st1);
          st2 = (emit (Sent req) st1)\<lparr>world := snd outcome\<rparr>
      in (case fst outcome of
            Inl err \<Rightarrow>
              (Inl (ErrWrap ''execute request: '' err),
               emit (LogError ''birdeye api request failed'') st2)
          | Inr resp \<Rightarrow>
              deferred_Close resp
                (case ReadAll (Resp_Body resp) of
                   Inl err \<Rightarrow> (Inl (ErrWrap ''read response body: '' err), st2)
                 | Inr body \<Rightarrow>
                     if Resp_StatusCode resp \<noteq> 200
                     then (Inl (ErrAPI \<lparr>StatusCode = Resp_StatusCode resp,
                                        Message = body, Path = path\<rparr>),
                           emit (LogError ''birdeye api error response'') st2)
                     else (Inr body, st2))))"
  using assms
  by (cases params)
     (simp_all add: doGet_def doGet_URL_def doGet_Request_def NewRequestWithContext_def Let_def
      Header_Set_def chainSolana_def)

lemma fst_deferred_Close [simp]: "fst (deferred_Close resp r) = fst r"
  by (simp add: deferred_Close_def split: option.splits)

lemma requests_deferred_Close [simp]:
  "requests (trace (snd (deferred_Close resp r))) = requests (trace (snd r))"
  by (simp add: deferred_Close_def emit_def split: option.splits)

lemma doGet_requests:
  "requests (trace (snd (doGet X c ctx path params st))) =
     requests (trace st) @
       (case NewRequest_error X (doGet_URL X c path params) of
          Some err \<Rightarrow> [] | None \<Rightarrow> [doGet_Request X c ctx path params])"
proof (cases "NewRequest_error X (doGet_URL X c path params)")
  case None
  show ?thesis
    by (simp add: doGet_built [OF None] None Let_def emit_def split: sum.splits)
next
  case (Some err)
  show ?thesis by (simp add: doGet_unparsable [OF Some] Some)
qed



subsection \<open>The batch loop\<close>

lemma loop_step:
  assumes "i < length addresses"
  shows "GetMultiplePrices_loop X um c ctx addresses i result st =
     (case fetch_batch X um c ctx (take batchSize (drop i addresses)) st of
        (Inl err, st1) \<Rightarrow> (Inl err, st1)
      | (Inr m, st1) \<Rightarrow>
          GetMultiplePrices_loop X um c ctx addresses (i + batchSize) (result ++ m) st1)"
proof -
  have slice: "take ((if length addresses < i + batchSize then length addresses
                      else i + batchSize) - i) (drop i addresses)
               = take batchSize (drop i addresses)"
    using assms by simp
  show ?thesis
    using assms
    by (subst GetMultiplePrices_loop.simps)
       (simp add: Let_def slice fetch_batch_def split: prod.splits sum.splits)
qed

lemma loop_done:
  assumes "\<not> i < length addresses"
  shows "GetMultiplePrices_loop X um c ctx addresses i result st = (Inr result, st)"
  using assms by (subst GetMultiplePrices_loop.simps) simp

lemma loop_batches_from:
  assumes K: "K = (length addresses + (batchSize - 1)) div batchSize"
  shows "GetMultiplePrices_loop X um c ctx addresses (k * batchSize) result st =
     finish result (fetch_batches X um c ctx
        (map (\<lambda>k. take batchSize (drop (k * batchSize) addresses)) [k..<K]) st)"
proof (induction "K - k" arbitrary: k result st)
  case 0
  then have "K \<le> k" by simp
  then have out: "\<not> k * batchSize < length addresses"
    unfolding K batchSize_def by arith
  from \<open>K \<le> k\<close> have "[k..<K] = []"
    by simp
  then show ?case
    by (simp only: loop_done [OF out] finish_def list.map fetch_batches.simps prod.case
        sum.case foldl_Nil)
next
  case (Suc d)
  then have lt: "k < K" by simp
  then have inr: "k * batchSize < length addresses"
    unfolding K batchSize_def by arith
  have d: "d = K - Suc k"
    using Suc.hyps(2) by simp
  have IH: "GetMultiplePrices_loop X um c ctx addresses (k * batchSize + batchSize) result st =
     finish result (fetch_batches X um c ctx
        (map (\<lambda>k. take batchSize (drop (k * batchSize) addresses)) [Suc k..<K]) st)"
    for result st
    using Suc.hyps(1) [OF d, of result st] by (simp add: add.commute)
  show ?case
    by (simp add: loop_step [OF inr] upt_conv_Cons [OF lt] IH finish_def
        split: prod.splits sum.splits)
qed

lemma loop_batches:
  "GetMultiplePrices_loop X um c ctx addresses 0 result st =
     finish result (fetch_batches X um c ctx (batches addresses) st)"
  using loop_batches_from [of _ addresses X um c ctx 0 result st, OF refl]
  by (simp add: batches_def)

lemma batches_Nil [simp]: "batches [] = []"
  by (simp add: batches_def batchSize_def)

lemma length_batches: "length (batches addresses) = (length addresses + 99) div 100"
  by (simp add: batches_def batchSize_def)

lemma batch_size:
  assumes "b \<in> set (batches addresses)"
  shows "b \<noteq> [] \<and> length b \<le> 100"
proof -
  from assms obtain k where k: "k < (length addresses + 99) div 100"
    and b: "b = take 100 (drop (k * 100) addresses)"
    by (auto simp: batches_def batchSize_def)
  from k have "k * 100 < length addresses" by arith
  with b show ?thesis by simp
qed

lemma concat_slices:
  "concat (map (\<lambda>k. take n (drop (k * n) xs)) [0..<m]) = take (m * n) xs"
proof (induction m)
  case 0
  show ?case by simp
next
  case (Suc m)
  have "take (m * n) xs @ take n (drop (m * n) xs) = take (m * n + n) xs"
    by (simp add: take_add)
  then show ?case by (simp add: Suc add.commute)
qed

lemma concat_batches: "concat (batches addresses) = addresses"
proof -
  have "length addresses \<le> (length addresses + 99) div 100 * 100" by arith
  then show ?thesis by (simp add: batches_def batchSize_def concat_slices)
qed

lemma batches_150:
  assumes "length addresses = 150"
  shows "batches addresses = [take 100 addresses, drop 100 addresses]"
proof -
  have "[0..<2] = [0, Suc 0]" by (simp add: upt_rec)
  then show ?thesis using assms by (simp add: batches_def batchSize_def)
qed

lemma fetch_batch_requests:
  "requests (trace (snd (fetch_batch X um c ctx batch st))) =
     requests (trace st) @
       (case NewRequest_error X (URL (batch_Request X c ctx batch)) of
          Some err \<Rightarrow> [] | None \<Rightarrow> [batch_Request X c ctx batch])"
proof -
  have "snd (fetch_batch X um c ctx batch st) =
        snd (doGet X c ctx ''/defi/multi_price''
               (Values_Set ''list_address'' (Join batch '','') []) st)"
    by (simp add: fetch_batch_def split: prod.splits sum.splits)
  then show ?thesis
    by (simp add: doGet_requests batch_Request_def Values_Set_def doGet_Request_def
        split: option.splits)
qed

lemma fetch_batch_ok_requests:
  assumes "fetch_batch X um c ctx batch st = (Inr m, st1)"
  shows "requests (trace st1) = requests (trace st) @ [batch_Request X c ctx batch]"
proof (cases "NewRequest_error X (URL (batch_Request X c ctx batch))")
  case None
  with fetch_batch_requests [of X um c ctx batch st] assms show ?thesis by simp
next
  case (Some err)
  then have "NewRequest_error X (doGet_URL X c ''/defi/multi_price''
               (Values_Set ''list_address'' (Join batch '','') [])) = Some err"
    by (simp add: batch_Request_def Values_Set_def doGet_Request_def)
  from doGet_unparsable [OF this] assms show ?thesis
    by (simp add: fetch_batch_def)
qed

lemma fetch_batches_ok:
  assumes "fetch_batches X um c ctx bs st = (Inr ms, st1)"
  shows "length ms = length bs \<and>
         requests (trace st1) = requests (trace st) @ map (batch_Request X c ctx) bs"
  using assms
proof (induction bs arbitrary: st ms)
  case Nil
  then show ?case by simp
next
  case (Cons b bs)
  from Cons.prems obtain m st' ms' where
    b: "fetch_batch X um c ctx b st = (Inr m, st')" and
    rest: "fetch_batches X um c ctx bs st' = (Inr ms', st1)" and ms: "ms = m # ms'"
    by (auto split: prod.splits sum.splits)
  from Cons.IH [OF rest] fetch_batch_ok_requests [OF b] ms show ?case by simp
qed

lemma fetch_batches_requests_prefix:
  "\<exists>k \<le> length bs. requests (trace (snd (fetch_batches X um c ctx bs st))) =
      requests (trace st) @ map (batch_Request X c ctx) (take k bs)"
proof (induction bs arbitrary: st)
  case Nil
  show ?case by simp
next
  case (Cons b bs)
  obtain r st' where b: "fetch_batch X um c ctx b st = (r, st')" by (cases "fetch_batch X um c ctx b st")
  show ?case
  proof (cases r)
    case (Inl err)
    have "requests (trace st') = requests (trace st) @ map (batch_Request X c ctx) (take 0 (b # bs))
        \<or> requests (trace st') = requests (trace st) @ map (batch_Request X c ctx) (take 1 (b # bs))"
      using fetch_batch_requests [of X um c ctx b st] b
      by (simp split: option.splits)
    moreover have "snd (fetch_batches X um c ctx (b # bs) st) = st'"
      using b Inl by simp
    ultimately show ?thesis
      by (metis One_nat_def le0 length_Cons Suc_le_mono)
  next
    case (Inr m)
    from Cons.IH [of st'] obtain k where k: "k \<le> length bs"
      and tr: "requests (trace (snd (fetch_batches X um c ctx bs st'))) =
               requests (trace st') @ map (batch_Request X c ctx) (take k bs)"
      by blast
    have "snd (fetch_batches X um c ctx (b # bs) st) = snd (fetch_batches X um c ctx bs st')"
      using b Inr by (simp split: prod.splits sum.splits)
    moreover have "requests (trace st') = requests (trace st) @ [batch_Request X c ctx b]"
      using fetch_batch_ok_requests b Inr by blast
    ultimately have "requests (trace (snd (fetch_batches X um c ctx (b # bs) st))) =
        requests (trace st) @ map (batch_Request X c ctx) (take (Suc k) (b # bs))"
      using tr by simp
    with k show ?thesis
      by (metis Suc_le_mono length_Cons)
  qed
qed

lemma fetch_batches_append:
  "fetch_batches X um c ctx (xs @ ys) st =
     (case fetch_batches X um c ctx xs st of
        (Inl err, st1) \<Rightarrow> (Inl err, st1)
      | (Inr ms, st1) \<Rightarrow>
          (case fetch_batches X um c ctx ys st1 of
             (Inl err, st2) \<Rightarrow> (Inl err, st2)
           | (Inr ms', st2) \<Rightarrow> (Inr (ms @ ms'), st2)))"
  by (induction xs arbitrary: st) (simp_all split: prod.splits sum.splits)

lemma GetMultiplePrices_batches:
  assumes "\<forall>a \<in> set addresses. a \<noteq> []" and "addresses \<noteq> []"
  shows "GetMultiplePrices X um c ctx addresses st =
     (case fetch_batches X um c ctx (batches addresses) st of
        (Inl err, st1) \<Rightarrow> (Inl err, st1)
      | (Inr ms, st1) \<Rightarrow>
          (Inr (foldl (++) Map.empty ms),
           emit (LogDebug ''fetched multiple token prices'') st1))"
proof -
  from assms(1) have "\<not> list_ex (\<lambda>addr. addr = []) addresses"
    by (auto simp: list_ex_iff)
  with assms(2) show ?thesis
    by (simp add: GetMultiplePrices_def loop_batches finish_def split: prod.splits sum.splits)
qed

lemma GetMultiplePrices_Nil: "GetMultiplePrices X um c ctx [] st = (Inr Map.empty, st)"
  by (simp add: GetMultiplePrices_def)

subsection \<open>The options\<close>

lemma apply_Options_snoc:
  "apply_Options (opts @ [opt]) c = apply_Option opt (apply_Options opts c)"
  by (induction opts arbitrary: c) simp_all

lemma final_baseURL:
  "baseURL (apply_Options opts c) = last (baseURL c # [u. WithBaseURL u \<leftarrow> opts])"
proof (induction opts arbitrary: c)
  case Nil show ?case by simp
next
  case (Cons opt opts) show ?case by (cases opt) (simp_all add: Cons.IH)
qed

lemma final_timeout:
  "timeout (apply_Options opts c) = last (timeout c # [d. WithTimeout d \<leftarrow> opts])"
proof (induction opts arbitrary: c)
  case Nil show ?case by simp
next
  case (Cons opt opts) show ?case by (cases opt) (simp_all add: Cons.IH)
qed

lemma final_maxRetries:
  "maxRetries (apply_Options opts c) = last (maxRetries c # [n. WithMaxRetries n \<leftarrow> opts])"
proof (induction opts arbitrary: c)
  case Nil show ?case by simp
next
  case (Cons opt opts) show ?case by (cases opt) (simp_all add: Cons.IH)
qed

lemma final_retryWaitMin:
  "retryWaitMin (apply_Options opts c) =
     last (retryWaitMin c # [mn. WithRetryWait mn mx \<leftarrow> opts])"
proof (induction opts arbitrary: c)
  case Nil show ?case by simp
next
  case (Cons opt opts) show ?case by (cases opt) (simp_all add: Cons.IH)
qed

lemma final_retryWaitMax:
  "retryWaitMax (apply_Options opts c) =
     last (retryWaitMax c # [mx. WithRetryWait mn mx \<leftarrow> opts])"
proof (induction opts arbitrary: c)
  case Nil show ?case by simp
next
  case (Cons opt opts) show ?case by (cases opt) (simp_all add: Cons.IH)
qed

lemma final_logger:
  "logger (apply_Options opts c) = last (logger c # [l. WithLogger l \<leftarrow> opts])"
proof (induction opts arbitrary: c)
  case Nil show ?case by simp
next
  case (Cons opt opts) show ?case by (cases opt) (simp_all add: Cons.IH)
qed

lemma final_httpClient:
  "httpClient (apply_Options opts c) = last (httpClient c # [h. WithHTTPClient h \<leftarrow> opts])"
proof (induction opts arbitrary: c)
  case Nil show ?case by simp
next
  case (Cons opt opts) show ?case by (cases opt) (simp_all add: Cons.IH)
qed

subsection \<open>The sample environment\<close>


lemma scripted_parsable [simp]: "NewRequest_error scripted_server url = None"
  by (simp add: scripted_server_def)

lemma fetch_batch_scripted_200:
  "fetch_batch scripted_server sample_Unmarshal c ctx b
     \<lparr>world = reply 200 ''ok'' # rest, trace = tr\<rparr> =
   (Inr [''token'' \<mapsto> 1],
    \<lparr>world = rest,
     trace = tr @ [LogDebug ''birdeye api request'', Sent (batch_Request scripted_server c ctx b)]\<rparr>)"
  by (simp add: fetch_batch_def doGet_built Let_def emit_def scripted_server_def reply_def
      deferred_Close_def parseResponse_def sample_Unmarshal_def batch_Request_def Values_Set_def)

lemma fetch_batch_scripted_500:
  "fetch_batch scripted_server sample_Unmarshal c ctx b
     \<lparr>world = reply 500 ''unavailable'' # rest, trace = tr\<rparr> =
   (Inl (ErrAPI \<lparr>StatusCode = 500, Message = ''unavailable'', Path = ''/defi/multi_price''\<rparr>),
    \<lparr>world = rest,
     trace = tr @ [LogDebug ''birdeye api request'', Sent (batch_Request scripted_server c ctx b),
                   LogError ''birdeye api error response'']\<rparr>)"
  by (simp add: fetch_batch_def doGet_built Let_def emit_def scripted_server_def reply_def
      deferred_Close_def batch_Request_def Values_Set_def)

lemma batches_replicate_150:
  "batches (replicate 150 x) = [replicate 100 x, replicate 50 x]"
  by (simp add: batches_150)


section \<open>The retry policy\<close>

text \<open>
  Claim C1. When construction is given a key and no custom HTTP client (the resolved
  configuration has a nil \<^verbatim>\<open>httpClient\<close>), the client it returns runs on the
  retrying client, and the decision function installed there behaves as follows, for every
  context, response and error. If the context is already cancelled it answers "no retry"
  together with the context's error, whatever the response and the error are. Otherwise
  it answers "retry" together with the error when the attempt ended in an error, and,
  when the attempt ended in a response, it answers "retry" exactly when the status is
  429 or at least 500 (so 2xx and the other 4xx are not retried), with no error.
\<close>

theorem CheckRetry_installed:
  assumes "apiKey \<noteq> []"
    and "httpClient (apply_Options opts default_config) = None"
  shows "\<exists>c rc. NewClient apiKey opts = Inr c \<and> cl_httpClient c = StandardClient rc
     \<and> (\<forall>ctx resp err.
          (\<forall>ctxErr. Err ctx = Some ctxErr \<longrightarrow>
             rc_CheckRetry rc ctx resp err = Inr (False, Some ctxErr))
        \<and> (Err ctx = None \<longrightarrow>
             (\<forall>e. err = Some e \<longrightarrow> rc_CheckRetry rc ctx resp err = Inr (True, Some e))
           \<and> (\<forall>r. err = None \<and> resp = Some r \<longrightarrow>
                 rc_CheckRetry rc ctx resp err =
                   Inr (Resp_StatusCode r = 429 \<or> Resp_StatusCode r \<ge> 500, None))))"
  using assms by (simp add: NewClient_def Let_def CheckRetry_def)

theorem CheckRetry_installed_witness:
  "\<exists>c rc. NewClient ''test-key'' [WithMaxRetries 0] = Inr c
     \<and> cl_httpClient c = StandardClient rc
     \<and> rc_CheckRetry rc \<lparr>Err = None\<rparr>
          (Some \<lparr>Resp_StatusCode = 429, Resp_Body = \<lparr>ReadAll = Inr [], Close = None\<rparr>\<rparr>) None
         = Inr (True, None)
     \<and> rc_CheckRetry rc \<lparr>Err = None\<rparr>
          (Some \<lparr>Resp_StatusCode = 404, Resp_Body = \<lparr>ReadAll = Inr [], Close = None\<rparr>\<rparr>) None
         = Inr (False, None)
     \<and> rc_CheckRetry rc \<lparr>Err = Some (ErrText ''context canceled'')\<rparr>
          None (Some (ErrText ''connection refused''))
         = Inr (False, Some (ErrText ''context canceled''))"
proof -
  have k: "''test-key'' \<noteq> []" by simp
  have h: "httpClient (apply_Options [WithMaxRetries 0] default_config) = None"
    by (simp add: default_config_def)
  from CheckRetry_installed [OF k h] obtain c rc where
    c: "NewClient ''test-key'' [WithMaxRetries 0] = Inr c" "cl_httpClient c = StandardClient rc"
    and pol: "\<And>ctx resp err.
          (\<forall>ctxErr. Err ctx = Some ctxErr \<longrightarrow>
             rc_CheckRetry rc ctx resp err = Inr (False, Some ctxErr))
        \<and> (Err ctx = None \<longrightarrow>
             (\<forall>e. err = Some e \<longrightarrow> rc_CheckRetry rc ctx resp err = Inr (True, Some e))
           \<and> (\<forall>r. err = None \<and> resp = Some r \<longrightarrow>
                 rc_CheckRetry rc ctx resp err =
                   Inr (Resp_StatusCode r = 429 \<or> Resp_StatusCode r \<ge> 500, None)))"
    by blast
  have "rc_CheckRetry rc \<lparr>Err = None\<rparr>
          (Some \<lparr>Resp_StatusCode = 429, Resp_Body = \<lparr>ReadAll = Inr [], Close = None\<rparr>\<rparr>) None
         = Inr (True, None)"
    using pol [where ctx = "\<lparr>Err = None\<rparr>" and err = None and resp =
        "Some \<lparr>Resp_StatusCode = 429, Resp_Body = \<lparr>ReadAll = Inr [], Close = None\<rparr>\<rparr>"]
    by simp
  moreover have "rc_CheckRetry rc \<lparr>Err = None\<rparr>
          (Some \<lparr>Resp_StatusCode = 404, Resp_Body = \<lparr>ReadAll = Inr [], Close = None\<rparr>\<rparr>) None
         = Inr (False, None)"
    using pol [where ctx = "\<lparr>Err = None\<rparr>" and err = None and resp =
        "Some \<lparr>Resp_StatusCode = 404, Resp_Body = \<lparr>ReadAll = Inr [], Close = None\<rparr>\<rparr>"]
    by simp
  moreover have "rc_CheckRetry rc \<lparr>Err = Some (ErrText ''context canceled'')\<rparr>
          None (Some (ErrText ''connection refused''))
         = Inr (False, Some (ErrText ''context canceled''))"
    using pol [where ctx = "\<lparr>Err = Some (ErrText ''context canceled'')\<rparr>"
        and err = "Some (ErrText ''connection refused'')" and resp = None]
    by simp
  ultimately show ?thesis using c by blast
qed


section \<open>Batched price lookup\<close>

text \<open>
  Claim C2, as stated, promises \<open>\<lceil>N/100\<rceil>\<close> requests for every list of non-empty
  keys. The loop returns at the first chunk whose request or decoding fails, so a
  150-key list whose first request is refused issues one request, not two.
\<close>

theorem GetMultiplePrices_request_count_counterexample:
  "length (requests (trace (snd (GetMultiplePrices scripted_server sample_Unmarshal sample_Client
      background (replicate 150 ''token'') (start []))))) = 1"
proof -
  define b where "b = take batchSize (replicate 150 ''token'')"
  define st' where
    "st' = snd (fetch_batch scripted_server sample_Unmarshal sample_Client background b (start []))"
  have "fst (fetch_batch scripted_server sample_Unmarshal sample_Client background b (start []))
          = Inl (ErrWrap ''execute request: '' (ErrText ''connection refused''))"
    by (simp add: fetch_batch_def doGet_built Let_def start_def emit_def scripted_server_def)
  then have fb: "fetch_batch scripted_server sample_Unmarshal sample_Client background b (start [])
          = (Inl (ErrWrap ''execute request: '' (ErrText ''connection refused'')), st')"
    by (simp add: st'_def prod_eq_iff)
  have one: "length (requests (trace st')) = 1"
    unfolding st'_def by (simp add: fetch_batch_requests start_def)
  have "GetMultiplePrices_loop scripted_server sample_Unmarshal sample_Client background
          (replicate 150 ''token'') 0 Map.empty (start [])
        = (Inl (ErrWrap ''execute request: '' (ErrText ''connection refused'')), st')"
    unfolding loop_step [of 0 "replicate 150 ''token''", simplified] b_def [symmetric, simplified] fb
    by simp
  then show ?thesis
    by (simp add: GetMultiplePrices_def list_ex_iff one)
qed

text \<open>
  Claim C2, amended. For every list of \<open>N\<close> non-empty keys: the chunks are
  \<open>\<lceil>N/100\<rceil>\<close> in number, each is non-empty, holds at most 100 keys, and together
  they are the list in order; a chunk's request carries the chunk joined with commas as
  the single query parameter \<^verbatim>\<open>list_address\<close>; the requests issued by the call are
  always the requests of the first \<open>k\<close> chunks, in order, for some \<open>k\<close>. When every
  chunk request succeeds and decodes, the call has issued exactly the \<open>\<lceil>N/100\<rceil>\<close>
  chunk requests and returns the per-chunk maps merged in issue order, a later chunk's
  entry replacing an earlier one for the same key. When some chunk fails the call returns
  that chunk's error. A 150-key list is cut into 100 + 50, and the empty list gives the
  empty map, no request and no error.
\<close>

theorem GetMultiplePrices_chunks:
  fixes um :: "string \<Rightarrow> error + (string \<rightharpoonup> 'd) envelope"
  assumes keys: "\<forall>a \<in> set addresses. a \<noteq> []"
  shows "length (batches addresses) = (length addresses + 99) div 100
     \<and> concat (batches addresses) = addresses
     \<and> (\<forall>b \<in> set (batches addresses). b \<noteq> [] \<and> length b \<le> 100)
     \<and> (\<forall>b. URL (batch_Request X c ctx b) =
              cl_baseURL c @ ''/defi/multi_price'' @ ''?'' @
                Encode X [(''list_address'', [Join b '',''])])
     \<and> (\<exists>k \<le> length (batches addresses).
          requests (trace (snd (GetMultiplePrices X um c ctx addresses st))) =
            requests (trace st) @ map (batch_Request X c ctx) (take k (batches addresses)))
     \<and> (\<forall>ms st1. fetch_batches X um c ctx (batches addresses) st = (Inr ms, st1) \<longrightarrow>
            fst (GetMultiplePrices X um c ctx addresses st) = Inr (foldl (++) Map.empty ms)
          \<and> length ms = length (batches addresses)
          \<and> requests (trace (snd (GetMultiplePrices X um c ctx addresses st))) =
              requests (trace st) @ map (batch_Request X c ctx) (batches addresses))
     \<and> (\<forall>err st1. fetch_batches X um c ctx (batches addresses) st = (Inl err, st1) \<longrightarrow>
            GetMultiplePrices X um c ctx addresses st = (Inl err, st1))
     \<and> (\<forall>acc ms (m :: string \<rightharpoonup> 'd) key. foldl (++) acc (ms @ [m]) key =
            (case m key of Some v \<Rightarrow> Some v | None \<Rightarrow> foldl (++) acc ms key))
     \<and> (length addresses = 150 \<longrightarrow>
            batches addresses = [take 100 addresses, drop 100 addresses])
     \<and> (addresses = [] \<longrightarrow>
            GetMultiplePrices X um c ctx addresses st = (Inr Map.empty, st))"
proof -
  have trace_eq: "requests (trace (snd (GetMultiplePrices X um c ctx addresses st))) =
      requests (trace (snd (fetch_batches X um c ctx (batches addresses) st)))"
  proof (cases "addresses = []")
    case True
    then show ?thesis by (simp add: GetMultiplePrices_Nil)
  next
    case False
    show ?thesis
      by (simp add: GetMultiplePrices_batches [OF keys False] split: prod.splits sum.splits)
  qed
  have fst_eq: "fst (GetMultiplePrices X um c ctx addresses st) = Inr (foldl (++) Map.empty ms)"
    if "fetch_batches X um c ctx (batches addresses) st = (Inr ms, st1)" for ms st1
  proof (cases "addresses = []")
    case True
    with that show ?thesis by (auto simp: GetMultiplePrices_Nil)
  next
    case False
    show ?thesis by (simp add: GetMultiplePrices_batches [OF keys False] that)
  qed
  have fail_eq: "GetMultiplePrices X um c ctx addresses st = (Inl err, st1)"
    if "fetch_batches X um c ctx (batches addresses) st = (Inl err, st1)" for err st1
  proof (cases "addresses = []")
    case True
    with that show ?thesis by simp
  next
    case False
    show ?thesis by (simp add: GetMultiplePrices_batches [OF keys False] that)
  qed
  have url: "URL (batch_Request X c ctx b) =
      cl_baseURL c @ ''/defi/multi_price'' @ ''?'' @ Encode X [(''list_address'', [Join b '',''])]"
    for b
    by (simp add: batch_Request_def doGet_Request_def doGet_URL_def)
  have lww: "foldl (++) acc (ms @ [m]) key =
      (case m key of Some v \<Rightarrow> Some v | None \<Rightarrow> foldl (++) acc ms key)"
    for acc ms and m :: "string \<rightharpoonup> 'd" and key
    by (simp add: map_add_def split: option.splits)
  have ok: "length ms = length (batches addresses)
          \<and> requests (trace (snd (GetMultiplePrices X um c ctx addresses st))) =
              requests (trace st) @ map (batch_Request X c ctx) (batches addresses)"
    if "fetch_batches X um c ctx (batches addresses) st = (Inr ms, st1)" for ms st1
    using fetch_batches_ok [OF that] by (simp add: trace_eq that)
  have pre: "\<exists>k \<le> length (batches addresses).
          requests (trace (snd (GetMultiplePrices X um c ctx addresses st))) =
            requests (trace st) @ map (batch_Request X c ctx) (take k (batches addresses))"
    unfolding trace_eq by (rule fetch_batches_requests_prefix)
  have nil: "addresses = [] \<longrightarrow> GetMultiplePrices X um c ctx addresses st = (Inr Map.empty, st)"
    by (simp add: GetMultiplePrices_Nil)
  have sz: "\<forall>b \<in> set (batches addresses). b \<noteq> [] \<and> length b \<le> 100"
    using batch_size by blast
  have okall: "\<forall>ms st1. fetch_batches X um c ctx (batches addresses) st = (Inr ms, st1) \<longrightarrow>
            fst (GetMultiplePrices X um c ctx addresses st) = Inr (foldl (++) Map.empty ms)
          \<and> length ms = length (batches addresses)
          \<and> requests (trace (snd (GetMultiplePrices X um c ctx addresses st))) =
              requests (trace st) @ map (batch_Request X c ctx) (batches addresses)"
    using fst_eq ok by blast
  have failall: "\<forall>err st1. fetch_batches X um c ctx (batches addresses) st = (Inl err, st1) \<longrightarrow>
            GetMultiplePrices X um c ctx addresses st = (Inl err, st1)"
    using fail_eq by blast
  have lwwall: "\<forall>acc ms (m :: string \<rightharpoonup> 'd) key. foldl (++) acc (ms @ [m]) key =
            (case m key of Some v \<Rightarrow> Some v | None \<Rightarrow> foldl (++) acc ms key)"
    using lww by blast
  have b150: "length addresses = 150 \<longrightarrow>
            batches addresses = [take 100 addresses, drop 100 addresses]"
    using batches_150 by blast
  have urlall: "\<forall>b. URL (batch_Request X c ctx b) =
              cl_baseURL c @ ''/defi/multi_price'' @ ''?'' @
                Encode X [(''list_address'', [Join b '',''])]"
    using url by blast
  from length_batches [of addresses] concat_batches [of addresses] sz urlall pre okall failall
    lwwall b150 nil
  show ?thesis by (intro conjI) assumption+
qed

theorem GetMultiplePrices_chunks_witness:
  "[] \<notin> set (replicate 150 ''token'')
   \<and> length (batches (replicate 150 ''token'')) = 2
   \<and> fst (GetMultiplePrices scripted_server sample_Unmarshal sample_Client background
       (replicate 150 ''token'') (start [reply 200 ''ok'', reply 200 ''ok'']))
       = Inr [''token'' \<mapsto> 1]
   \<and> requests (trace (snd (GetMultiplePrices scripted_server sample_Unmarshal sample_Client
       background (replicate 150 ''token'') (start [reply 200 ''ok'', reply 200 ''ok'']))))
       = [batch_Request scripted_server sample_Client background (replicate 100 ''token''),
          batch_Request scripted_server sample_Client background (replicate 50 ''token'')]"
proof -
  have keys: "\<forall>a \<in> set (replicate 150 ''token''). a \<noteq> []" by simp
  have run: "fetch_batches scripted_server sample_Unmarshal sample_Client background
      (batches (replicate 150 ''token'')) (start [reply 200 ''ok'', reply 200 ''ok'']) =
      (Inr [[''token'' \<mapsto> 1], [''token'' \<mapsto> 1]],
       \<lparr>world = [],
        trace = [LogDebug ''birdeye api request'',
                 Sent (batch_Request scripted_server sample_Client background
                         (replicate 100 ''token'')),
                 LogDebug ''birdeye api request'',
                 Sent (batch_Request scripted_server sample_Client background
                         (replicate 50 ''token''))]\<rparr>)"
    by (simp add: start_def fetch_batch_scripted_200 batches_replicate_150)
  have len: "length (replicate 150 ''token'') = 150" by simp
  from GetMultiplePrices_chunks [OF keys, where X = scripted_server and c = sample_Client
      and ctx = background and st = "start [reply 200 ''ok'', reply 200 ''ok'']"
      and um = sample_Unmarshal]
  have "fst (GetMultiplePrices scripted_server sample_Unmarshal sample_Client background
       (replicate 150 ''token'') (start [reply 200 ''ok'', reply 200 ''ok'']))
       = Inr (foldl (++) Map.empty [[''token'' \<mapsto> 1], [''token'' \<mapsto> (1::int)]])
     \<and> requests (trace (snd (GetMultiplePrices scripted_server sample_Unmarshal sample_Client
       background (replicate 150 ''token'') (start [reply 200 ''ok'', reply 200 ''ok'']))))
       = requests (trace (start [reply 200 ''ok'', reply 200 ''ok''])) @
         map (batch_Request scripted_server sample_Client background)
           (batches (replicate 150 ''token''))"
    using run by blast
  then show ?thesis
    using keys by (simp add: batches_replicate_150 start_def)
qed


section \<open>Envelope decoding\<close>

text \<open>
  Claim C3. Whenever the body decodes to an envelope whose \<^verbatim>\<open>success\<close> is false,
  \<open>parseResponse\<close> fails; the error is not an \<open>APIError\<close> (\<open>IsAPIError\<close> finds
  none in it); its text is \<^verbatim>\<open>birdeye api error: \<close> followed by the message the server
  supplied when that message is non-empty, and the fixed text
  \<^verbatim>\<open>birdeye api returned success=false\<close> otherwise.
\<close>

theorem parseResponse_unsuccessful:
  assumes "json_Unmarshal body = Inr resp" and "\<not> resp_Success resp"
  shows "\<exists>err. parseResponse json_Unmarshal body = Inl err
           \<and> IsAPIError (Some err) = None
           \<and> Error err = (if resp_Message resp \<noteq> []
                           then ''birdeye api error: '' @ resp_Message resp
                           else ''birdeye api returned success=false'')"
  using assms by (simp add: parseResponse_def IsAPIError_def)

theorem parseResponse_unsuccessful_witness:
  "sample_Unmarshal ''no'' = Inr (Envelope False ''bad request'' Map.empty)
   \<and> (\<exists>err. parseResponse sample_Unmarshal ''no'' = Inl err
          \<and> IsAPIError (Some err) = None
          \<and> Error err = ''birdeye api error: bad request'')
   \<and> sample_Unmarshal ''{}'' = Inr (Envelope False [] Map.empty)
   \<and> (\<exists>err. parseResponse sample_Unmarshal ''{}'' = Inl err
          \<and> IsAPIError (Some err) = None
          \<and> Error err = ''birdeye api returned success=false'')"
proof -
  have a: "sample_Unmarshal ''no'' = Inr (Envelope False ''bad request'' Map.empty)"
    by (simp add: sample_Unmarshal_def)
  have b: "sample_Unmarshal ''{}'' = Inr (Envelope False [] Map.empty)"
    by (simp add: sample_Unmarshal_def)
  show ?thesis
    using parseResponse_unsuccessful
            [of sample_Unmarshal "''no''" "Envelope False ''bad request'' Map.empty"]
          parseResponse_unsuccessful
            [of sample_Unmarshal "''{}''" "Envelope False [] Map.empty"] a b
    by simp
qed


section \<open>Status handling in the transport\<close>





section \<open>Validation of the key list\<close>

text \<open>
  Claim C5. For every key list that contains an empty string, \<open>GetMultiplePrices\<close>
  fails with the validation error (status 400, message
  \<^verbatim>\<open>address list contains empty string\<close>, the multi-price path) and leaves the state
  as it was: no request is issued and nothing is logged, wherever in the list the empty
  key stands.
\<close>

theorem GetMultiplePrices_empty_key:
  assumes "[] \<in> set addresses"
  shows "GetMultiplePrices X json_Unmarshal c ctx addresses st =
           (Inl (ErrAPI \<lparr>StatusCode = 400, Message = ''address list contains empty string'',
                         Path = ''/defi/multi_price''\<rparr>), st)
       \<and> requests (trace (snd (GetMultiplePrices X json_Unmarshal c ctx addresses st))) =
           requests (trace st)"
proof -
  from assms have "addresses \<noteq> []" and "list_ex (\<lambda>addr. addr = []) addresses"
    by (auto simp: list_ex_iff)
  then show ?thesis by (simp add: GetMultiplePrices_def)
qed

theorem GetMultiplePrices_empty_key_witness:
  "[] \<in> set [''tokenA'', [], ''tokenB'']
   \<and> GetMultiplePrices scripted_server sample_Unmarshal sample_Client background
        [''tokenA'', [], ''tokenB''] (start [reply 200 ''ok'']) =
       (Inl (ErrAPI \<lparr>StatusCode = 400, Message = ''address list contains empty string'',
                     Path = ''/defi/multi_price''\<rparr>), start [reply 200 ''ok''])
   \<and> requests (trace (snd (GetMultiplePrices scripted_server sample_Unmarshal sample_Client
        background [''tokenA'', [], ''tokenB''] (start [reply 200 ''ok''])))) = []"
proof -
  have h: "[] \<in> set [''tokenA'', [], ''tokenB'']" by simp
  show ?thesis
    using GetMultiplePrices_empty_key [OF h, of scripted_server sample_Unmarshal sample_Client
        background "start [reply 200 ''ok'']"] h
    by (simp add: start_def)
qed


section \<open>All or nothing\<close>

text \<open>
  Claim C6. Let the keys be non-empty and let the chunks be \<open>earlier @ failing # rest\<close>.
  If the chunks of \<open>earlier\<close> were fetched and decoded, giving the maps \<open>ms\<close>, and
  the request or the decoding of \<open>failing\<close> then fails with \<open>err\<close>, the call returns
  exactly \<open>err\<close> and no map: \<open>ms\<close> does not occur in the result, and the chunks of
  \<open>rest\<close> are not requested (the final state is the one the failing chunk left).
\<close>

theorem GetMultiplePrices_all_or_nothing:
  assumes keys: "\<forall>a \<in> set addresses. a \<noteq> []"
    and split: "batches addresses = earlier @ failing # rest"
    and ok: "fetch_batches X um c ctx earlier st = (Inr ms, st1)"
    and bad: "fetch_batch X um c ctx failing st1 = (Inl err, st2)"
  shows "GetMultiplePrices X um c ctx addresses st = (Inl err, st2)"
proof -
  from split have ne: "addresses \<noteq> []" by auto
  have "fetch_batches X um c ctx (batches addresses) st = (Inl err, st2)"
    unfolding split by (simp add: fetch_batches_append ok bad)
  then show ?thesis by (simp add: GetMultiplePrices_batches [OF keys ne])
qed

theorem GetMultiplePrices_all_or_nothing_witness:
  "batches (replicate 150 ''token'') = [replicate 100 ''token''] @ replicate 50 ''token'' # []
   \<and> GetMultiplePrices scripted_server sample_Unmarshal sample_Client background
       (replicate 150 ''token'') (start [reply 200 ''ok'', reply 500 ''unavailable'']) =
     (Inl (ErrAPI \<lparr>StatusCode = 500, Message = ''unavailable'', Path = ''/defi/multi_price''\<rparr>),
      \<lparr>world = [],
       trace = [LogDebug ''birdeye api request'',
                Sent (batch_Request scripted_server sample_Client background
                        (replicate 100 ''token'')),
                LogDebug ''birdeye api request'',
                Sent (batch_Request scripted_server sample_Client background
                        (replicate 50 ''token'')),
                LogError ''birdeye api error response'']\<rparr>)"
proof -
  have keys: "\<forall>a \<in> set (replicate 150 ''token''). a \<noteq> []" by simp
  have split: "batches (replicate 150 ''token'') =
      [replicate 100 ''token''] @ replicate 50 ''token'' # []"
    by (simp add: batches_replicate_150)
  have ok: "fetch_batches scripted_server sample_Unmarshal sample_Client background
      [replicate 100 ''token''] (start [reply 200 ''ok'', reply 500 ''unavailable'']) =
      (Inr [[''token'' \<mapsto> 1]],
       \<lparr>world = [reply 500 ''unavailable''],
        trace = [LogDebug ''birdeye api request'',
                 Sent (batch_Request scripted_server sample_Client background
                         (replicate 100 ''token''))]\<rparr>)"
    by (simp add: start_def fetch_batch_scripted_200)
  have bad: "fetch_batch scripted_server sample_Unmarshal sample_Client background
      (replicate 50 ''token'')
      \<lparr>world = [reply 500 ''unavailable''],
        trace = [LogDebug ''birdeye api request'',
                 Sent (batch_Request scripted_server sample_Client background
                         (replicate 100 ''token''))]\<rparr> =
      (Inl (ErrAPI \<lparr>StatusCode = 500, Message = ''unavailable'', Path = ''/defi/multi_price''\<rparr>),
       \<lparr>world = [],
        trace = [LogDebug ''birdeye api request'',
                Sent (batch_Request scripted_server sample_Client background
                        (replicate 100 ''token'')),
                LogDebug ''birdeye api request'',
                Sent (batch_Request scripted_server sample_Client background
                        (replicate 50 ''token'')),
                LogError ''birdeye api error response'']\<rparr>)"
    by (simp add: fetch_batch_scripted_500)
  from GetMultiplePrices_all_or_nothing [OF keys split ok bad] split show ?thesis
    by blast
qed


section \<open>Construction\<close>

text \<open>
  Claim C7. With an empty key \<open>NewClient\<close> fails, whatever the options, with the
  validation error \<^verbatim>\<open>api key is required\<close> (a plain error, not an \<open>APIError\<close>).
  With a non-empty key and no options it succeeds; the client has the public endpoint as
  base URL and the no-op logger, and runs on the retrying client with 3 retries, waits
  between 500 ms and 3 s and a timeout of 10 s (durations in nanoseconds); the resolved
  configuration is the default one.
\<close>

theorem NewClient_defaults:
  "NewClient [] opts = Inl (ErrText ''api key is required'')
   \<and> IsAPIError (Some (ErrText ''api key is required'')) = None
   \<and> (apiKey \<noteq> [] \<longrightarrow>
        NewClient apiKey [] =
          Inr \<lparr>cl_apiKey = apiKey, cl_baseURL = ''https://public-api.birdeye.so'',
               cl_httpClient = StandardClient
                 \<lparr>RetryMax = 3, RetryWaitMin = 500000000, RetryWaitMax = 3000000000,
                  HTTPClient_Timeout = 10000000000, rc_Logger = None,
                  rc_CheckRetry = CheckRetry\<rparr>,
               cl_logger = noopLogger\<rparr>
        \<and> apply_Options [] default_config =
          \<lparr>baseURL = DefaultBaseURL, timeout = 10 * Second, maxRetries = 3,
           retryWaitMin = 500 * Millisecond, retryWaitMax = 3 * Second,
           logger = noopLogger, httpClient = None\<rparr>)"
  by (simp add: NewClient_def default_config_def DefaultBaseURL_def DefaultTimeout_def
      DefaultMaxRetries_def DefaultRetryWaitMin_def DefaultRetryWaitMax_def Second_def
      Millisecond_def IsAPIError_def)

theorem NewClient_defaults_witness:
  "''test-key'' \<noteq> [] \<and>
   NewClient ''test-key'' [] =
     Inr \<lparr>cl_apiKey = ''test-key'', cl_baseURL = ''https://public-api.birdeye.so'',
          cl_httpClient = StandardClient
            \<lparr>RetryMax = 3, RetryWaitMin = 500000000, RetryWaitMax = 3000000000,
             HTTPClient_Timeout = 10000000000, rc_Logger = None,
             rc_CheckRetry = CheckRetry\<rparr>,
          cl_logger = noopLogger\<rparr>"
  using NewClient_defaults [of "[]" "''test-key''"] by simp

text \<open>
  Claim C8, as stated, says that every option overwrites exactly one field.
  \<open>WithRetryWait\<close> overwrites two: both wait bounds change.
\<close>

theorem WithRetryWait_two_fields_counterexample:
  "retryWaitMin (apply_Option (WithRetryWait 1 2) default_config) \<noteq> retryWaitMin default_config
   \<and> retryWaitMax (apply_Option (WithRetryWait 1 2) default_config) \<noteq> retryWaitMax default_config"
  by (simp add: default_config_def DefaultRetryWaitMin_def DefaultRetryWaitMax_def Second_def
      Millisecond_def)

text \<open>
  Claim C8, amended. \<open>WithBaseURL\<close>, \<open>WithTimeout\<close>, \<open>WithMaxRetries\<close>,
  \<open>WithLogger\<close> and \<open>WithHTTPClient\<close> each overwrite exactly one field, and
  \<open>WithRetryWait\<close> overwrites exactly the two wait bounds; every other field is left
  as it was. Options are applied in call order: applying a list extended by one option
  is applying the option to the result of the list, so the final value of a field is the
  one given by the last option in the list that targets it, and the initial value when
  none does.
\<close>

theorem Option_frame_and_order:
  "(let c' = apply_Option (WithBaseURL u) c in
      baseURL c' = u \<and> timeout c' = timeout c \<and> maxRetries c' = maxRetries c \<and>
      retryWaitMin c' = retryWaitMin c \<and> retryWaitMax c' = retryWaitMax c \<and>
      logger c' = logger c \<and> httpClient c' = httpClient c)
   \<and> (let c' = apply_Option (WithTimeout d) c in
      baseURL c' = baseURL c \<and> timeout c' = d \<and> maxRetries c' = maxRetries c \<and>
      retryWaitMin c' = retryWaitMin c \<and> retryWaitMax c' = retryWaitMax c \<and>
      logger c' = logger c \<and> httpClient c' = httpClient c)
   \<and> (let c' = apply_Option (WithMaxRetries n) c in
      baseURL c' = baseURL c \<and> timeout c' = timeout c \<and> maxRetries c' = n \<and>
      retryWaitMin c' = retryWaitMin c \<and> retryWaitMax c' = retryWaitMax c \<and>
      logger c' = logger c \<and> httpClient c' = httpClient c)
   \<and> (let c' = apply_Option (WithRetryWait mn mx) c in
      baseURL c' = baseURL c \<and> timeout c' = timeout c \<and> maxRetries c' = maxRetries c \<and>
      retryWaitMin c' = mn \<and> retryWaitMax c' = mx \<and>
      logger c' = logger c \<and> httpClient c' = httpClient c)
   \<and> (let c' = apply_Option (WithLogger l) c in
      baseURL c' = baseURL c \<and> timeout c' = timeout c \<and> maxRetries c' = maxRetries c \<and>
      retryWaitMin c' = retryWaitMin c \<and> retryWaitMax c' = retryWaitMax c \<and>
      logger c' = l \<and> httpClient c' = httpClient c)
   \<and> (let c' = apply_Option (WithHTTPClient h) c in
      baseURL c' = baseURL c \<and> timeout c' = timeout c \<and> maxRetries c' = maxRetries c \<and>
      retryWaitMin c' = retryWaitMin c \<and> retryWaitMax c' = retryWaitMax c \<and>
      logger c' = logger c \<and> httpClient c' = h)
   \<and> apply_Options (opts @ [opt]) c = apply_Option opt (apply_Options opts c)
   \<and> baseURL (apply_Options opts c) = last (baseURL c # [u. WithBaseURL u \<leftarrow> opts])
   \<and> timeout (apply_Options opts c) = last (timeout c # [d. WithTimeout d \<leftarrow> opts])
   \<and> maxRetries (apply_Options opts c) = last (maxRetries c # [n. WithMaxRetries n \<leftarrow> opts])
   \<and> retryWaitMin (apply_Options opts c) =
        last (retryWaitMin c # [mn. WithRetryWait mn mx \<leftarrow> opts])
   \<and> retryWaitMax (apply_Options opts c) =
        last (retryWaitMax c # [mx. WithRetryWait mn mx \<leftarrow> opts])
   \<and> logger (apply_Options opts c) = last (logger c # [l. WithLogger l \<leftarrow> opts])
   \<and> httpClient (apply_Options opts c) =
        last (httpClient c # [h. WithHTTPClient h \<leftarrow> opts])"
  by (simp only: Let_def apply_Options_snoc final_baseURL final_timeout final_maxRetries
      final_retryWaitMin final_retryWaitMax final_logger final_httpClient) simp

theorem Option_frame_and_order_witness:
  "baseURL (apply_Options [WithBaseURL ''a'', WithTimeout 5, WithBaseURL ''b''] default_config)
     = ''b''
   \<and> timeout (apply_Options [WithBaseURL ''a'', WithTimeout 5, WithBaseURL ''b''] default_config)
     = 5
   \<and> maxRetries (apply_Options [WithBaseURL ''a'', WithTimeout 5, WithBaseURL ''b'']
       default_config) = 3"
  using Option_frame_and_order
    [where opts = "[WithBaseURL ''a'', WithTimeout 5, WithBaseURL ''b'']" and c = default_config]
  by (simp add: default_config_def DefaultMaxRetries_def)


section \<open>Classification of errors\<close>

text \<open>
  Claim C9. For every \<open>APIError\<close>: \<open>IsNotFound\<close> holds iff the status is 404,
  \<open>IsRateLimited\<close> iff it is 429, \<open>IsServerError\<close> iff it is at least 500,
  \<open>IsClientError\<close> iff it lies between 400 and 499. The four depend on the status
  only (changing message and path changes none of them). The categories overlap: with
  status 404 both \<open>IsNotFound\<close> and \<open>IsClientError\<close> hold, with status 429 both
  \<open>IsRateLimited\<close> and \<open>IsClientError\<close>.
\<close>

theorem APIError_classification:
  "IsNotFound e = (StatusCode e = 404)
   \<and> IsRateLimited e = (StatusCode e = 429)
   \<and> IsServerError e = (StatusCode e \<ge> 500)
   \<and> IsClientError e = (400 \<le> StatusCode e \<and> StatusCode e \<le> 499)
   \<and> IsNotFound (e\<lparr>StatusCode := 404\<rparr>) \<and> IsClientError (e\<lparr>StatusCode := 404\<rparr>)
   \<and> IsRateLimited (e\<lparr>StatusCode := 429\<rparr>) \<and> IsClientError (e\<lparr>StatusCode := 429\<rparr>)
   \<and> IsNotFound (e\<lparr>Message := m, Path := p\<rparr>) = IsNotFound e
   \<and> IsRateLimited (e\<lparr>Message := m, Path := p\<rparr>) = IsRateLimited e
   \<and> IsServerError (e\<lparr>Message := m, Path := p\<rparr>) = IsServerError e
   \<and> IsClientError (e\<lparr>Message := m, Path := p\<rparr>) = IsClientError e"
  by (auto simp: IsNotFound_def IsRateLimited_def IsServerError_def IsClientError_def)

theorem APIError_classification_witness:
  "IsNotFound \<lparr>StatusCode = 404, Message = ''gone'', Path = ''/defi/price''\<rparr>
   \<and> IsClientError \<lparr>StatusCode = 404, Message = ''gone'', Path = ''/defi/price''\<rparr>
   \<and> \<not> IsRateLimited \<lparr>StatusCode = 404, Message = ''gone'', Path = ''/defi/price''\<rparr>
   \<and> \<not> IsServerError \<lparr>StatusCode = 404, Message = ''gone'', Path = ''/defi/price''\<rparr>"
  using APIError_classification
    [of "\<lparr>StatusCode = 404, Message = ''gone'', Path = ''/defi/price''\<rparr>"]
  by simp


section \<open>Empty address\<close>

text \<open>
  Claim C10. For every client, context and state, each of \<open>GetPrice\<close>,
  \<open>GetTokenOverview\<close> and \<open>GetTokenSecurity\<close> answers the empty address with the
  \<open>APIError\<close> of status 400, message \<^verbatim>\<open>address is required\<close> and its own endpoint
  path, and returns the state unchanged, so no request is issued. Such an error is
  found by \<open>IsAPIError\<close> and satisfies \<open>IsClientError\<close>.
\<close>

theorem empty_address_rejected:
  "GetPrice X um1 c ctx [] st =
     (Inl (ErrAPI \<lparr>StatusCode = 400, Message = ''address is required'',
                   Path = ''/defi/price''\<rparr>), st)
   \<and> GetTokenOverview X um2 c ctx [] st =
     (Inl (ErrAPI \<lparr>StatusCode = 400, Message = ''address is required'',
                   Path = ''/defi/token_overview''\<rparr>), st)
   \<and> GetTokenSecurity X um3 c ctx [] st =
     (Inl (ErrAPI \<lparr>StatusCode = 400, Message = ''address is required'',
                   Path = ''/defi/token_security''\<rparr>), st)
   \<and> IsAPIError (Some (ErrAPI \<lparr>StatusCode = 400, Message = ''address is required'',
                                Path = p\<rparr>))
       = Some \<lparr>StatusCode = 400, Message = ''address is required'', Path = p\<rparr>
   \<and> IsClientError \<lparr>StatusCode = 400, Message = ''address is required'', Path = p\<rparr>"
  by (simp add: GetPrice_def GetTokenOverview_def GetTokenSecurity_def IsAPIError_def
      IsClientError_def)

theorem empty_address_rejected_witness:
  "GetPrice scripted_server sample_Unmarshal sample_Client background [] (start []) =
     (Inl (ErrAPI \<lparr>StatusCode = 400, Message = ''address is required'',
                   Path = ''/defi/price''\<rparr>), start [])
   \<and> requests (trace (snd (GetPrice scripted_server sample_Unmarshal sample_Client background
        [] (start [])))) = []"
  using empty_address_rejected
    [where X = scripted_server and ?um1.0 = sample_Unmarshal and ?um2.0 = sample_Unmarshal
       and ?um3.0 = sample_Unmarshal and c = sample_Client and ctx = background
       and st = "start []" and p = "''/defi/price''"]
  by (simp add: start_def)

end
